theory Spec2Isabelle
  imports Complex_Main
begin

section \<open>The order service's reliability stack\<close>

text \<open>
  A shallow embedding of the order service of reliable-orders: the retry executor and its
  backoff, the bulkhead, the circuit breaker wrapper and the idempotency store (package
  reliability), and the orchestrator (package service: \<open>CreateOrder\<close>,
  \<open>callPaymentService\<close>, \<open>doPaymentRequest\<close>, \<open>persistOrder\<close>).

  Conventions.
  \<^item> A Go \<open>(T, error)\<close> result is a pair of options or a sum; \<open>nil\<close> is \<open>None\<close>.
  \<^item> \<open>time.Duration\<close> and \<open>time.Time\<close> are integers (nanoseconds); \<open>float64\<close> is
    idealised as \<open>real\<close>, so rounding of floating point is outside the model.
  \<^item> Effects are explicit: a closure that talks to the outside world is a function from
    a state to a result and a new state; what the outside world answers (the downstream's
    responses, the clock, the random source, which branch a \<open>select\<close> takes) is read
    from an environment record.
  \<^item> Span attributes and events only annotate the trace and are left out.
\<close>

subsection \<open>Errors\<close>

text \<open>Every error value the stack builds; \<open>fmt.Errorf("...: %w", e)\<close> wraps \<open>e\<close>.\<close>

datatype err =
    NewRequestError string       \<comment> \<open>the error of http.NewRequestWithContext\<close>
  | PaymentRequestFailed string  \<comment> \<open>"payment request failed: %w", around the error of httpClient.Do\<close>
  | PaymentStatus int string     \<comment> \<open>"payment service returned %d: %s"\<close>
  | RetryCancelled               \<comment> \<open>"retry cancelled: %w", around ctx.Err()\<close>
  | RetryExhausted int err       \<comment> \<open>"retry exhausted after %d attempts: %w"\<close>
  | ErrOpenState                 \<comment> \<open>the breaker library's rejection\<close>
  | CircuitBreakerOpen err       \<comment> \<open>"circuit breaker open: %w"\<close>
  | BulkheadLimit                \<comment> \<open>"bulkhead limit reached: %w", around the error of sem.Acquire\<close>
  | PaymentFailed err            \<comment> \<open>"payment failed: %w"\<close>
  | PersistFailed err            \<comment> \<open>"failed to persist order: %w"\<close>

subsection \<open>Retry policy and backoff (package reliability, retry.go)\<close>

record RetryConfig =
  MaxAttempts :: int
  InitialBackoff :: int
  MaxBackoff :: int
  BackoffMultiple :: real
  JitterFraction :: real

definition DefaultRetryConfig :: RetryConfig where
  "DefaultRetryConfig =
     \<lparr>MaxAttempts = 3, InitialBackoff = 50 * 1000000, MaxBackoff = 1 * 1000000000,
      BackoffMultiple = 2, JitterFraction = 3 / 10\<rparr>"

text \<open>
  \<open>calculateBackoff cfg attempt r\<close>, where \<open>r\<close> is the draw of \<open>rand.Float64()\<close>
  (a number in \<open>[0, 1)\<close>). The conversion \<open>time.Duration(backoff)\<close> of a non-negative
  float truncates to whole nanoseconds.
\<close>

definition calculateBackoff :: "RetryConfig \<Rightarrow> int \<Rightarrow> real \<Rightarrow> int" where
  "calculateBackoff cfg attempt r =
     (let backoff = real_of_int (InitialBackoff cfg) * (BackoffMultiple cfg powi attempt);
          backoff = (if backoff > real_of_int (MaxBackoff cfg)
                     then real_of_int (MaxBackoff cfg) else backoff);
          jitterRange = backoff * JitterFraction cfg;
          jitter = (r * 2 * jitterRange) - jitterRange;
          backoff = backoff + jitter;
          backoff = (if backoff < 0 then 0 else backoff)
      in \<lfloor>backoff\<rfloor>)"


subsection \<open>Retry executor (package reliability, retry.go)\<close>

record Response =
  StatusCode :: int

type_synonym attempt_result = "Response option \<times> err option"

text \<open>
  What the loop observes of its surroundings: the random draw used by the backoff after
  attempt \<open>i\<close>, and whether the \<open>select\<close> after attempt \<open>i\<close>, with a timer of \<open>d\<close>
  nanoseconds, takes the \<open>ctx.Done()\<close> branch (the context was cancelled or its deadline
  passed before the timer fired).
\<close>

record retry_env =
  rand_Float64 :: "int \<Rightarrow> real"
  ctx_Done :: "int \<Rightarrow> int \<Rightarrow> bool"

text \<open>The success test of the loop body.\<close>

fun succeeded :: "attempt_result \<Rightarrow> bool" where
  "succeeded (Some resp, None) = (StatusCode resp < 500 \<and> StatusCode resp \<noteq> 429)"
| "succeeded (_, _) = False"

text \<open>What the function returns once the loop has run out of attempts.\<close>

fun exhausted :: "RetryConfig \<Rightarrow> attempt_result \<Rightarrow> attempt_result" where
  "exhausted cfg (resp, Some lastErr) = (None, Some (RetryExhausted (MaxAttempts cfg) lastErr))"
| "exhausted cfg (resp, None) = (resp, None)"

text \<open>
  The \<open>for\<close> loop from \<open>attempt\<close> on; \<open>prev\<close> holds the variables \<open>resp\<close> and
  \<open>lastErr\<close>, and \<open>w\<close> is the state the operation \<open>fn\<close> acts on.
\<close>

function retry_loop ::
  "retry_env \<Rightarrow> RetryConfig \<Rightarrow> ('w \<Rightarrow> attempt_result \<times> 'w) \<Rightarrow> int \<Rightarrow> attempt_result \<Rightarrow> 'w
     \<Rightarrow> attempt_result \<times> 'w" where
  "retry_loop env cfg fn attempt prev w =
     (if attempt < MaxAttempts cfg then
        (case fn w of (cur, w') \<Rightarrow>
           if succeeded cur then ((fst cur, None), w')
           else if attempt < MaxAttempts cfg - 1 \<and>
                   ctx_Done env attempt (calculateBackoff cfg attempt (rand_Float64 env attempt))
           then ((None, Some RetryCancelled), w')
           else retry_loop env cfg fn (attempt + 1) cur w')
      else (exhausted cfg prev, w))"
  by pat_completeness auto
termination
  by (relation "measure (\<lambda>(env, cfg, fn, attempt, prev, w). nat (MaxAttempts cfg - attempt))") auto

definition RetryableHTTPCall ::
  "retry_env \<Rightarrow> RetryConfig \<Rightarrow> ('w \<Rightarrow> attempt_result \<times> 'w) \<Rightarrow> 'w \<Rightarrow> attempt_result \<times> 'w" where
  "RetryableHTTPCall env cfg fn w = retry_loop env cfg fn 0 (None, None) w"

text \<open>
  Counting the invocations of an operation: the operation, instrumented with a counter
  beside its state.
\<close>

definition counted :: "('w \<Rightarrow> 'r \<times> 'w) \<Rightarrow> 'w \<times> nat \<Rightarrow> 'r \<times> ('w \<times> nat)" where
  "counted fn = (\<lambda>(w, n). case fn w of (r, w') \<Rightarrow> (r, (w', Suc n)))"

declare retry_loop.simps [simp del]

subsection \<open>Bulkhead, one caller (package reliability)\<close>

text \<open>
  \<open>sem_cur\<close> is the number of permits of the weighted semaphore that are held,
  \<open>Bulkhead_max\<close> the field \<open>max\<close>.
\<close>

record Bulkhead =
  sem_cur :: int
  Bulkhead_max :: int

definition NewBulkhead :: "int \<Rightarrow> Bulkhead" where
  "NewBulkhead maxConcurrent = \<lparr>sem_cur = 0, Bulkhead_max = maxConcurrent\<rparr>"

text \<open>
  \<open>Execute\<close> as one caller runs it. \<open>acquired\<close> tells whether \<open>sem.Acquire(ctx, 1)\<close>
  returned nil (a permit was granted) or the context's error; the deferred
  \<open>sem.Release(1)\<close> runs when \<open>fn\<close> has returned.
\<close>

definition sem_grant :: "Bulkhead \<Rightarrow> Bulkhead" where
  "sem_grant b = b\<lparr>sem_cur := sem_cur b + 1\<rparr>"

definition sem_Release :: "Bulkhead \<Rightarrow> Bulkhead" where
  "sem_Release b = b\<lparr>sem_cur := sem_cur b - 1\<rparr>"

definition Bulkhead_Execute ::
  "bool \<Rightarrow> ('w \<Rightarrow> err option \<times> 'w) \<Rightarrow> Bulkhead \<times> 'w \<Rightarrow> err option \<times> (Bulkhead \<times> 'w)" where
  "Bulkhead_Execute acquired fn = (\<lambda>(b, w).
     if \<not> acquired then (Some BulkheadLimit, (b, w))
     else (case fn w of (e, w') \<Rightarrow> (e, (sem_Release (sem_grant b), w'))))"

subsection \<open>Circuit breaker (package reliability, circuit_breaker.go)\<close>

datatype BreakerMode = Closed | Open | HalfOpen

record Counts =
  Requests :: nat
  TotalFailures :: nat
  ConsecutiveFailures :: nat

record BreakerPolicy =
  half_open_probe_budget :: nat
  rolling_window :: int
  open_cooldown :: int

record BreakerState =
  mode :: BreakerMode
  counts :: Counts
  window_start :: int
  opened_at :: int
  half_open_inflight :: nat

record CircuitBreaker =
  policy :: BreakerPolicy
  cb :: BreakerState

text \<open>The \<open>ReadyToTrip\<close> function that \<open>NewCircuitBreaker\<close> installs.\<close>

definition ReadyToTrip :: "Counts \<Rightarrow> bool" where
  "ReadyToTrip c =
     (let failureRatio = real (TotalFailures c) / real (Requests c)
      in ConsecutiveFailures c \<ge> 5 \<or> (Requests c \<ge> 10 \<and> failureRatio \<ge> 6 / 10))"

definition zero_counts :: Counts where
  "zero_counts = \<lparr>Requests = 0, TotalFailures = 0, ConsecutiveFailures = 0\<rparr>"

text \<open>
  \<open>NewCircuitBreaker\<close>: three probes while half-open, a ten second window, a thirty
  second cooldown; \<open>now\<close> is the time of construction.
\<close>

definition NewCircuitBreaker :: "int \<Rightarrow> CircuitBreaker" where
  "NewCircuitBreaker now =
     \<lparr>policy = \<lparr>half_open_probe_budget = 3, rolling_window = 10 * 1000000000,
                 open_cooldown = 30 * 1000000000\<rparr>,
      cb = \<lparr>mode = Closed, counts = zero_counts, window_start = now, opened_at = 0,
            half_open_inflight = 0\<rparr>\<rparr>"

text \<open>
  Modelled from the spec: the state machine of the breaker library
  (github.com/sony/gobreaker, whose code is not part of the repository's sources), after
  section 4.3 of the specification. On entry the breaker advances its state (an open breaker
  whose cooldown has elapsed becomes half-open), rejects the call when it is open or when
  the half-open probe budget is used up, and otherwise reserves a slot. The rolling window
  is kept by the periodic reset that the specification allows: a closed breaker whose window
  has elapsed starts a new window with zero counts.
\<close>

definition breaker_advance :: "BreakerPolicy \<Rightarrow> int \<Rightarrow> BreakerState \<Rightarrow> BreakerState" where
  "breaker_advance pol now b =
     (case mode b of
        Closed \<Rightarrow>
          if now - window_start b \<ge> rolling_window pol
          then b\<lparr>counts := zero_counts, window_start := now\<rparr> else b
      | Open \<Rightarrow> if now - opened_at b \<ge> open_cooldown pol then b\<lparr>mode := HalfOpen\<rparr> else b
      | HalfOpen \<Rightarrow> b)"

definition breaker_enter ::
  "BreakerPolicy \<Rightarrow> int \<Rightarrow> BreakerState \<Rightarrow> err option \<times> BreakerState" where
  "breaker_enter pol now b0 =
     (let b = breaker_advance pol now b0
      in case mode b of
           Closed \<Rightarrow> (None, b)
         | Open \<Rightarrow> (Some ErrOpenState, b)
         | HalfOpen \<Rightarrow>
             if half_open_inflight b = half_open_probe_budget pol then (Some ErrOpenState, b)
             else (None, b\<lparr>half_open_inflight := half_open_inflight b + 1\<rparr>))"

text \<open>
  Modelled from the spec: the accounting on return (section 4.3). The counts are updated,
  the probe slot (if one was reserved) is given back, and the transitions of the table are
  taken: a closed breaker opens when the trip predicate holds after a failure, a half-open
  breaker opens on a failed probe and closes when a probe succeeds and no probe is left in
  flight.
\<close>

definition breaker_exit :: "BreakerPolicy \<Rightarrow> int \<Rightarrow> bool \<Rightarrow> bool \<Rightarrow> BreakerState \<Rightarrow> BreakerState" where
  "breaker_exit pol now probe ok b =
     (let c = counts b;
          c = c\<lparr>Requests := Requests c + 1\<rparr>;
          c = (if ok then c\<lparr>ConsecutiveFailures := 0\<rparr>
               else c\<lparr>TotalFailures := TotalFailures c + 1,
                      ConsecutiveFailures := ConsecutiveFailures c + 1\<rparr>);
          inflight = (if probe then half_open_inflight b - 1 else half_open_inflight b);
          b = b\<lparr>counts := c, half_open_inflight := inflight\<rparr>
      in case mode b of
           Closed \<Rightarrow> if \<not> ok \<and> ReadyToTrip c then b\<lparr>mode := Open, opened_at := now\<rparr> else b
         | Open \<Rightarrow> b
         | HalfOpen \<Rightarrow>
             if \<not> ok then b\<lparr>mode := Open, opened_at := now\<rparr>
             else if inflight = 0
             then b\<lparr>mode := Closed, counts := zero_counts, window_start := now\<rparr>
             else b)"

text \<open>
  Modelled from the spec: the library's \<open>Execute\<close>. \<open>now\<close> is the clock on entry and
  \<open>now'\<close> the clock on return; the operation runs between the two, outside the lock.
\<close>

definition gobreaker_Execute ::
  "int \<Rightarrow> int \<Rightarrow> ('w \<Rightarrow> err option \<times> 'w) \<Rightarrow> CircuitBreaker \<times> 'w
     \<Rightarrow> err option \<times> (CircuitBreaker \<times> 'w)" where
  "gobreaker_Execute now now' req = (\<lambda>(c, w).
     case breaker_enter (policy c) now (cb c) of
       (Some e, b) \<Rightarrow> (Some e, (c\<lparr>cb := b\<rparr>, w))
     | (None, b) \<Rightarrow>
         (case req w of (e, w') \<Rightarrow>
            (e, (c\<lparr>cb := breaker_exit (policy c) now' (mode b = HalfOpen) (e = None) b\<rparr>, w'))))"

text \<open>\<open>errors.Is(err, gobreaker.ErrOpenState)\<close>: the error or one it wraps is the rejection.\<close>

fun errors_Is_ErrOpenState :: "err \<Rightarrow> bool" where
  "errors_Is_ErrOpenState ErrOpenState = True"
| "errors_Is_ErrOpenState (RetryExhausted n e) = errors_Is_ErrOpenState e"
| "errors_Is_ErrOpenState (CircuitBreakerOpen e) = errors_Is_ErrOpenState e"
| "errors_Is_ErrOpenState (PaymentFailed e) = errors_Is_ErrOpenState e"
| "errors_Is_ErrOpenState (PersistFailed e) = errors_Is_ErrOpenState e"
| "errors_Is_ErrOpenState _ = False"

text \<open>The wrapper \<open>CircuitBreaker.Execute\<close> of the source.\<close>

definition CircuitBreaker_Execute ::
  "int \<Rightarrow> int \<Rightarrow> ('w \<Rightarrow> err option \<times> 'w) \<Rightarrow> CircuitBreaker \<times> 'w
     \<Rightarrow> err option \<times> (CircuitBreaker \<times> 'w)" where
  "CircuitBreaker_Execute now now' fn cw =
     (case gobreaker_Execute now now' fn cw of
        (Some e, cw') \<Rightarrow>
          if errors_Is_ErrOpenState e then (Some (CircuitBreakerOpen e), cw')
          else (Some e, cw')
      | (None, cw') \<Rightarrow> (None, cw'))"

subsection \<open>Bulkhead, many callers\<close>

text \<open>
  Modelled from the spec: the weighted semaphore (golang.org/x/sync/semaphore, not part of
  the repository's sources) as the counting semaphore of section 4.4: a permit is granted
  only while fewer than \<open>max_concurrent\<close> are held, and a caller that waits may give up
  when its context is cancelled. The callers of \<open>Bulkhead.Execute\<close> interleave; each is at
  one of the program points of the source function.
\<close>

datatype op_exit = Returned "err option" | Panicked

datatype pc =
    Waiting          \<comment> \<open>inside \<open>sem.Acquire\<close>\<close>
  | Running          \<comment> \<open>permit held, \<open>fn(ctx)\<close> running\<close>
  | Exiting op_exit  \<comment> \<open>\<open>fn\<close> has returned or panicked, the deferred release is due\<close>
  | Done op_exit     \<comment> \<open>\<open>Execute\<close> has returned (or the panic has left it)\<close>

text \<open>Each caller carries counters of what it has done so far.\<close>

record caller =
  point :: pc
  acquires :: nat
  releases :: nat
  runs :: nat

record bulkhead_sys =
  bh :: Bulkhead
  callers :: "caller list"

datatype event =
    Call              \<comment> \<open>a new caller enters \<open>Execute\<close>\<close>
  | Grant nat         \<comment> \<open>\<open>Acquire\<close> of caller \<open>i\<close> returns nil\<close>
  | Cancel nat        \<comment> \<open>\<open>Acquire\<close> of caller \<open>i\<close> returns the context's error\<close>
  | Exit nat op_exit  \<comment> \<open>the operation of caller \<open>i\<close> returns or panics\<close>
  | Release nat       \<comment> \<open>the deferred \<open>sem.Release(1)\<close> of caller \<open>i\<close> runs\<close>

definition bulkhead_init :: "int \<Rightarrow> bulkhead_sys" where
  "bulkhead_init maxConcurrent = \<lparr>bh = NewBulkhead maxConcurrent, callers = []\<rparr>"

fun bulkhead_step :: "event \<Rightarrow> bulkhead_sys \<Rightarrow> bulkhead_sys option" where
  "bulkhead_step Call s =
     Some (s\<lparr>callers := callers s @ [\<lparr>point = Waiting, acquires = 0, releases = 0, runs = 0\<rparr>]\<rparr>)"
| "bulkhead_step (Grant i) s =
     (if i < length (callers s) \<and> point (callers s ! i) = Waiting
         \<and> sem_cur (bh s) + 1 \<le> Bulkhead_max (bh s)
      then let c = callers s ! i
           in Some (s\<lparr>bh := sem_grant (bh s),
                      callers := (callers s)[i := c\<lparr>point := Running, acquires := acquires c + 1\<rparr>]\<rparr>)
      else None)"
| "bulkhead_step (Cancel i) s =
     (if i < length (callers s) \<and> point (callers s ! i) = Waiting
      then let c = callers s ! i
           in Some (s\<lparr>callers := (callers s)[i := c\<lparr>point := Done (Returned (Some BulkheadLimit))\<rparr>]\<rparr>)
      else None)"
| "bulkhead_step (Exit i x) s =
     (if i < length (callers s) \<and> point (callers s ! i) = Running
      then let c = callers s ! i
           in Some (s\<lparr>callers := (callers s)[i := c\<lparr>point := Exiting x, runs := runs c + 1\<rparr>]\<rparr>)
      else None)"
| "bulkhead_step (Release i) s =
     (if i < length (callers s)
      then (case point (callers s ! i) of
              Exiting x \<Rightarrow>
                let c = callers s ! i
                in Some (s\<lparr>bh := sem_Release (bh s),
                           callers := (callers s)[i := c\<lparr>point := Done x, releases := releases c + 1\<rparr>]\<rparr>)
            | _ \<Rightarrow> None)
      else None)"

text \<open>A run is a sequence of events, each enabled where it happens.\<close>

fun bulkhead_run :: "event list \<Rightarrow> bulkhead_sys \<Rightarrow> bulkhead_sys option" where
  "bulkhead_run [] s = Some s"
| "bulkhead_run (e # es) s =
     (case bulkhead_step e s of None \<Rightarrow> None | Some s' \<Rightarrow> bulkhead_run es s')"



subsection \<open>Idempotency store (package reliability)\<close>

record IdempotentResponse =
  OrderID :: string
  Status :: string
  CreatedAt :: int

datatype store_op = OpGet string | OpSet string

text \<open>
  The map of the store, and a log of every \<open>Get\<close> and \<open>Set\<close> made on it (newest first);
  the log is not in the source, it records that the store was consulted.
\<close>

record IdempotencyStore =
  entries :: "string \<rightharpoonup> IdempotentResponse"
  accesses :: "store_op list"

definition NewIdempotencyStore :: IdempotencyStore where
  "NewIdempotencyStore = \<lparr>entries = Map.empty, accesses = []\<rparr>"

definition IdempotencyStore_Get ::
  "IdempotencyStore \<Rightarrow> string \<Rightarrow> IdempotentResponse option \<times> IdempotencyStore" where
  "IdempotencyStore_Get s key = (entries s key, s\<lparr>accesses := OpGet key # accesses s\<rparr>)"

definition IdempotencyStore_Set ::
  "IdempotencyStore \<Rightarrow> string \<Rightarrow> IdempotentResponse \<Rightarrow> IdempotencyStore" where
  "IdempotencyStore_Set s key resp =
     s\<lparr>entries := (entries s)(key \<mapsto> resp), accesses := OpSet key # accesses s\<rparr>"


subsection \<open>Orchestrator (package service)\<close>

text \<open>
  What lies outside the repository: whether \<open>http.NewRequestWithContext\<close> accepts the
  configured URL (\<open>None\<close>) or fails, what the \<open>k\<close>-th call of \<open>httpClient.Do\<close> made by the
  service yields (a transport error, or a status code and body), and the rendering
  \<open>t.Format(time.RFC3339)\<close> of a time.
\<close>

datatype do_result = DoError string | DoResponse int string

record platform =
  http_NewRequest :: "string option"
  httpClient_Do :: "nat \<Rightarrow> do_result"
  time_Format :: "int \<Rightarrow> string"

text \<open>
  What one request meets: the identifier drawn by \<open>uuid.New()\<close>, whether the bulkhead's
  \<open>Acquire\<close> was granted, the clock when the breaker is entered and left, the surroundings
  of the retry loop under the payment context, and the two readings of \<open>time.Now()\<close> that
  \<open>CreateOrder\<close> takes, the first for the response and the second for the stored entry.
\<close>

record request_env =
  uuid_New :: string
  sem_Acquired :: bool
  cb_now :: int
  cb_now' :: int
  retry :: retry_env
  now_response :: int
  now_stored :: int

record CreateOrderResponse =
  order_id :: string
  status :: string
  created_at :: string

text \<open>The service; \<open>http_calls\<close> counts the calls of \<open>httpClient.Do\<close> made so far.\<close>

record OrderService =
  circuitBreaker :: CircuitBreaker
  bulkhead :: Bulkhead
  retryConfig :: RetryConfig
  idempotencyStore :: IdempotencyStore
  http_calls :: nat

definition NewOrderService :: "int \<Rightarrow> OrderService" where
  "NewOrderService now =
     \<lparr>circuitBreaker = NewCircuitBreaker now, bulkhead = NewBulkhead 10,
      retryConfig = DefaultRetryConfig, idempotencyStore = NewIdempotencyStore,
      http_calls = 0\<rparr>"

text \<open>\<open>doPaymentRequest\<close>, acting on the count of HTTP calls.\<close>

definition doPaymentRequest :: "platform \<Rightarrow> nat \<Rightarrow> attempt_result \<times> nat" where
  "doPaymentRequest p n =
     (case http_NewRequest p of
        Some m \<Rightarrow> ((None, Some (NewRequestError m)), n)
      | None \<Rightarrow>
          (case httpClient_Do p n of
             DoError m \<Rightarrow> ((None, Some (PaymentRequestFailed m)), Suc n)
           | DoResponse code body \<Rightarrow>
               if code < 200 \<or> code \<ge> 300
               then ((Some \<lparr>StatusCode = code\<rparr>, Some (PaymentStatus code body)), Suc n)
               else ((Some \<lparr>StatusCode = code\<rparr>, None), Suc n)))"

text \<open>\<open>persistOrder\<close> sleeps and returns nil.\<close>

definition persistOrder :: "err option" where
  "persistOrder = None"

text \<open>
  \<open>callPaymentService\<close>: the bulkhead around the breaker around the retry loop around
  \<open>doPaymentRequest\<close>.
\<close>

definition callPaymentService ::
  "platform \<Rightarrow> request_env \<Rightarrow> OrderService \<Rightarrow> err option \<times> OrderService" where
  "callPaymentService p env s =
     (case Bulkhead_Execute (sem_Acquired env)
             (CircuitBreaker_Execute (cb_now env) (cb_now' env)
                (\<lambda>n. case RetryableHTTPCall (retry env) (retryConfig s) (doPaymentRequest p) n of
                        ((resp, e), n') \<Rightarrow> (e, n')))
             (bulkhead s, (circuitBreaker s, http_calls s))
      of (e, (b, (c, n))) \<Rightarrow> (e, s\<lparr>bulkhead := b, circuitBreaker := c, http_calls := n\<rparr>))"

text \<open>The part of \<open>CreateOrder\<close> after the idempotency check.\<close>

definition process_order ::
  "platform \<Rightarrow> request_env \<Rightarrow> string \<Rightarrow> OrderService
     \<Rightarrow> (err + CreateOrderResponse) \<times> OrderService" where
  "process_order p env idempotencyKey s =
     (let orderID = uuid_New env
      in case callPaymentService p env s of
           (Some e, s') \<Rightarrow> (Inl (PaymentFailed e), s')
         | (None, s') \<Rightarrow>
             (case persistOrder of
                Some e \<Rightarrow> (Inl (PersistFailed e), s')
              | None \<Rightarrow>
                  let response = \<lparr>order_id = orderID, status = ''completed'',
                                  created_at = time_Format p (now_response env)\<rparr>;
                      s'' = (if idempotencyKey \<noteq> []
                             then s'\<lparr>idempotencyStore :=
                                       IdempotencyStore_Set (idempotencyStore s') idempotencyKey
                                         \<lparr>OrderID = orderID, Status = ''completed'',
                                          CreatedAt = now_stored env\<rparr>\<rparr>
                             else s')
                  in (Inr response, s'')))"

definition CreateOrder ::
  "platform \<Rightarrow> request_env \<Rightarrow> string \<Rightarrow> OrderService
     \<Rightarrow> (err + CreateOrderResponse) \<times> OrderService" where
  "CreateOrder p env idempotencyKey s =
     (if idempotencyKey \<noteq> []
      then (case IdempotencyStore_Get (idempotencyStore s) idempotencyKey of
              (Some cached, st) \<Rightarrow>
                (Inr \<lparr>order_id = OrderID cached, status = Status cached,
                      created_at = time_Format p (CreatedAt cached)\<rparr>,
                 s\<lparr>idempotencyStore := st\<rparr>)
            | (None, st) \<Rightarrow> process_order p env idempotencyKey (s\<lparr>idempotencyStore := st\<rparr>))
      else process_order p env idempotencyKey s)"


subsection \<open>Sample surroundings\<close>

text \<open>Surroundings in which the context is never cancelled and the random source draws zero.\<close>

definition quiet :: retry_env where
  "quiet = \<lparr>rand_Float64 = (\<lambda>i. 0), ctx_Done = (\<lambda>i d. False)\<rparr>"

text \<open>
  A request that is admitted by the bulkhead and whose context is never cancelled; a
  platform whose downstream answers every call with the given status and an empty body.
  The sample rendering of a time depends on its whole seconds only, as RFC 3339 does.
\<close>

definition calm :: request_env where
  "calm = \<lparr>uuid_New = ''id-1'', sem_Acquired = True, cb_now = 1000000000,
           cb_now' = 1200000000, retry = quiet,
           now_response = 3000000000, now_stored = 3000000100\<rparr>"

definition seconds_rendering :: "int \<Rightarrow> string" where
  "seconds_rendering t = (if even (t div 1000000000) then ''even second'' else ''odd second'')"

definition always :: "int \<Rightarrow> platform" where
  "always code = \<lparr>http_NewRequest = None, httpClient_Do = (\<lambda>k. DoResponse code []),
                  time_Format = seconds_rendering\<rparr>"




text \<open>
  A request whose two readings of the clock fall on either side of a full second, and the
  same two successive requests with it against a healthy downstream.
\<close>

definition straddling :: request_env where
  "straddling = calm\<lparr>now_response := 3999999999, now_stored := 4000000000\<rparr>"

definition straddling_first :: "(err + CreateOrderResponse) \<times> OrderService" where
  "straddling_first = CreateOrder (always 200) straddling ''k-1'' (NewOrderService 0)"

definition straddling_second :: "(err + CreateOrderResponse) \<times> OrderService" where
  "straddling_second =
     CreateOrder (always 200) (calm\<lparr>uuid_New := ''id-2''\<rparr>) ''k-1'' (snd straddling_first)"






section \<open>Properties\<close>

subsection \<open>The retry loop\<close>

lemma counted_apply: "counted fn (w, n) = (fst (fn w), (snd (fn w), Suc n))"
  by (simp add: counted_def split: prod.splits)



lemma retry_loop_done:
  "\<not> attempt < MaxAttempts cfg \<Longrightarrow> retry_loop env cfg fn attempt prev w = (exhausted cfg prev, w)"
  by (simp add: retry_loop.simps)


lemma retry_loop_cancelled:
  "attempt < MaxAttempts cfg - 1 \<Longrightarrow> \<not> succeeded (fst (fn w)) \<Longrightarrow>
   ctx_Done env attempt (calculateBackoff cfg attempt (rand_Float64 env attempt)) \<Longrightarrow>
   retry_loop env cfg fn attempt prev w = ((None, Some RetryCancelled), snd (fn w))"
  by (cases "fn w") (simp add: retry_loop.simps [of env cfg fn attempt])

lemma retry_loop_next:
  "attempt < MaxAttempts cfg \<Longrightarrow> \<not> succeeded (fst (fn w)) \<Longrightarrow>
   \<not> (attempt < MaxAttempts cfg - 1 \<and>
      ctx_Done env attempt (calculateBackoff cfg attempt (rand_Float64 env attempt))) \<Longrightarrow>
   retry_loop env cfg fn attempt prev w =
     retry_loop env cfg fn (attempt + 1) (fst (fn w)) (snd (fn w))"
  by (cases "fn w") (auto simp: retry_loop.simps [of env cfg fn attempt])

lemma funpow_shift: "((snd \<circ> fn) ^^ Suc j) w = ((snd \<circ> fn) ^^ j) (snd (fn w))"
  by (simp only: funpow_Suc_right comp_apply)

lemma retry_loop_exhaust:
  assumes "\<forall>j\<le>k. \<not> succeeded (fst (fn (((snd \<circ> fn) ^^ j) w)))"
    and "\<forall>i. a \<le> i \<and> i < MaxAttempts cfg - 1 \<longrightarrow>
           \<not> ctx_Done env i (calculateBackoff cfg i (rand_Float64 env i))"
    and "MaxAttempts cfg - a = int (Suc k)"
  shows "retry_loop env cfg fn a prev w =
           (exhausted cfg (fst (fn (((snd \<circ> fn) ^^ k) w))), ((snd \<circ> fn) ^^ Suc k) w)"
  using assms
proof (induction k arbitrary: a prev w)
  case 0
  have "retry_loop env cfg fn a prev w = retry_loop env cfg fn (a + 1) (fst (fn w)) (snd (fn w))"
    using 0 by (intro retry_loop_next) auto
  also have "\<dots> = (exhausted cfg (fst (fn w)), snd (fn w))"
    using 0 by (intro retry_loop_done) auto
  finally show ?case by simp
next
  case (Suc k)
  have f: "\<not> succeeded (fst (fn w))" using Suc.prems(1) by (auto dest: spec [of _ 0])
  have "retry_loop env cfg fn a prev w = retry_loop env cfg fn (a + 1) (fst (fn w)) (snd (fn w))"
    using Suc.prems f by (intro retry_loop_next) auto
  also have "\<dots> = (exhausted cfg (fst (fn (((snd \<circ> fn) ^^ k) (snd (fn w))))),
                    ((snd \<circ> fn) ^^ Suc k) (snd (fn w)))"
  proof (rule Suc.IH)
    show "\<forall>j\<le>k. \<not> succeeded (fst (fn (((snd \<circ> fn) ^^ j) (snd (fn w)))))"
    proof (intro allI impI)
      fix j assume "j \<le> k"
      then have "Suc j \<le> Suc k" by simp
      then have "\<not> succeeded (fst (fn (((snd \<circ> fn) ^^ Suc j) w)))"
        using Suc.prems(1) by blast
      then show "\<not> succeeded (fst (fn (((snd \<circ> fn) ^^ j) (snd (fn w)))))"
        unfolding funpow_shift .
    qed
    show "\<forall>i. a + 1 \<le> i \<and> i < MaxAttempts cfg - 1 \<longrightarrow>
           \<not> ctx_Done env i (calculateBackoff cfg i (rand_Float64 env i))"
      using Suc.prems(2) by auto
    show "MaxAttempts cfg - (a + 1) = int (Suc k)" using Suc.prems(3) by simp
  qed
  also have "\<dots> = (exhausted cfg (fst (fn (((snd \<circ> fn) ^^ Suc k) w))),
                    ((snd \<circ> fn) ^^ Suc (Suc k)) w)"
    by (simp only: funpow_shift)
  finally show ?case .
qed

lemma retry_loop_cancel:
  assumes "\<forall>j\<le>k. \<not> succeeded (fst (fn (((snd \<circ> fn) ^^ j) w)))"
    and "\<forall>i. a \<le> i \<and> i < a + int k \<longrightarrow>
           \<not> ctx_Done env i (calculateBackoff cfg i (rand_Float64 env i))"
    and "ctx_Done env (a + int k) (calculateBackoff cfg (a + int k) (rand_Float64 env (a + int k)))"
    and "a + int k < MaxAttempts cfg - 1"
  shows "retry_loop env cfg fn a prev w =
           ((None, Some RetryCancelled), ((snd \<circ> fn) ^^ Suc k) w)"
  using assms
proof (induction k arbitrary: a prev w)
  case 0
  then show ?case using retry_loop_cancelled [of a cfg fn w env prev] by simp
next
  case (Suc k)
  have f: "\<not> succeeded (fst (fn w))" using Suc.prems(1) by (auto dest: spec [of _ 0])
  have "retry_loop env cfg fn a prev w = retry_loop env cfg fn (a + 1) (fst (fn w)) (snd (fn w))"
    using Suc.prems f by (intro retry_loop_next) auto
  also have "\<dots> = ((None, Some RetryCancelled), ((snd \<circ> fn) ^^ Suc k) (snd (fn w)))"
  proof (rule Suc.IH)
    show "\<forall>j\<le>k. \<not> succeeded (fst (fn (((snd \<circ> fn) ^^ j) (snd (fn w)))))"
    proof (intro allI impI)
      fix j assume "j \<le> k"
      then have "Suc j \<le> Suc k" by simp
      then have "\<not> succeeded (fst (fn (((snd \<circ> fn) ^^ Suc j) w)))"
        using Suc.prems(1) by blast
      then show "\<not> succeeded (fst (fn (((snd \<circ> fn) ^^ j) (snd (fn w)))))"
        unfolding funpow_shift .
    qed
    show "\<forall>i. a + 1 \<le> i \<and> i < a + 1 + int k \<longrightarrow>
           \<not> ctx_Done env i (calculateBackoff cfg i (rand_Float64 env i))"
      using Suc.prems(2) by auto
    show "ctx_Done env (a + 1 + int k)
            (calculateBackoff cfg (a + 1 + int k) (rand_Float64 env (a + 1 + int k)))"
      using Suc.prems(3) by (simp add: add.assoc)
    show "a + 1 + int k < MaxAttempts cfg - 1" using Suc.prems(4) by simp
  qed
  also have "\<dots> = ((None, Some RetryCancelled), ((snd \<circ> fn) ^^ Suc (Suc k)) w)"
    by (simp only: funpow_shift)
  finally show ?case .
qed

lemma counted_funpow:
  "((snd \<circ> counted fn) ^^ k) (w, n) = (((snd \<circ> fn) ^^ k) w, n + k)"
  by (induction k) (simp_all add: counted_apply)

subsection \<open>Claims about the retry executor\<close>

text \<open>
  C9. There are operations, namely every operation that on each attempt returns a response
  with status at least 500 or equal to 429 together with a nil error, for which
  \<open>RetryableHTTPCall\<close> (with at least one attempt allowed and no cancellation during the
  backoffs) invokes the operation \<open>MaxAttempts\<close> times and then returns the response of
  the last attempt with a nil error: the caller sees the exhausted sequence as a success.
\<close>

theorem C9_exhausted_status_returned_without_error:
  assumes "1 \<le> MaxAttempts cfg"
    and "\<forall>w. \<exists>resp. fst (fn w) = (Some resp, None) \<and> (StatusCode resp \<ge> 500 \<or> StatusCode resp = 429)"
    and "\<forall>i d. \<not> ctx_Done env i d"
  shows "\<exists>resp. RetryableHTTPCall env cfg (counted fn) (w, 0) =
                  ((Some resp, None), (((snd \<circ> fn) ^^ nat (MaxAttempts cfg)) w, nat (MaxAttempts cfg)))
              \<and> fst (fn (((snd \<circ> fn) ^^ (nat (MaxAttempts cfg) - 1)) w)) = (Some resp, None)
              \<and> (StatusCode resp \<ge> 500 \<or> StatusCode resp = 429)"
proof -
  define k where "k = nat (MaxAttempts cfg) - 1"
  have k: "MaxAttempts cfg - 0 = int (Suc k)" "nat (MaxAttempts cfg) = Suc k"
    using assms(1) by (simp_all add: k_def)
  obtain resp where r: "fst (fn (((snd \<circ> fn) ^^ k) w)) = (Some resp, None)"
      "StatusCode resp \<ge> 500 \<or> StatusCode resp = 429"
    using assms(2) by blast
  have nofail: "\<not> succeeded (fst (counted fn v))" for v
  proof -
    obtain u n where v: "v = (u, n)" by (cases v)
    obtain q where "fst (fn u) = (Some q, None)" "StatusCode q \<ge> 500 \<or> StatusCode q = 429"
      using assms(2) by blast
    then show ?thesis by (auto simp: v counted_apply)
  qed
  have "retry_loop env cfg (counted fn) 0 (None, None) (w, 0) =
          (exhausted cfg (fst (counted fn (((snd \<circ> counted fn) ^^ k) (w, 0)))),
           ((snd \<circ> counted fn) ^^ Suc k) (w, 0))"
    by (rule retry_loop_exhaust) (use nofail assms(3) k(1) in auto)
  then have "RetryableHTTPCall env cfg (counted fn) (w, 0) =
          ((Some resp, None), (((snd \<circ> fn) ^^ Suc k) w, Suc k))"
    using r(1) by (simp add: RetryableHTTPCall_def counted_funpow counted_apply del: funpow.simps)
  then show ?thesis unfolding k(2) using r by auto
qed

theorem C9_witness:
  "RetryableHTTPCall quiet DefaultRetryConfig
     (counted (\<lambda>w::unit. ((Some \<lparr>StatusCode = 503\<rparr>, None), w))) ((), 0) =
   ((Some \<lparr>StatusCode = 503\<rparr>, None), ((), 3))"
  using C9_exhausted_status_returned_without_error
    [of DefaultRetryConfig "\<lambda>w::unit. ((Some \<lparr>StatusCode = 503\<rparr>, None), w)" quiet "()"]
  by (simp add: DefaultRetryConfig_def quiet_def)

subsection \<open>The payment call through the stack\<close>





text \<open>What the call through the stack leaves of the service.\<close>

lemma callPaymentService_frame:
  "idempotencyStore (snd (callPaymentService p env s)) = idempotencyStore s \<and>
   retryConfig (snd (callPaymentService p env s)) = retryConfig s"
  by (simp add: callPaymentService_def split: prod.splits)






subsection \<open>The orchestrator and the number of HTTP calls\<close>

lemma callPaymentService_store_update:
  "callPaymentService p env (s\<lparr>idempotencyStore := st\<rparr>) =
     (fst (callPaymentService p env s), (snd (callPaymentService p env s))\<lparr>idempotencyStore := st\<rparr>)"
  by (simp add: callPaymentService_def split: prod.splits)








text \<open>Evaluating sample runs: the definitions to unfold.\<close>

lemmas run_defs =
  CreateOrder_def process_order_def callPaymentService_def Bulkhead_Execute_def
  CircuitBreaker_Execute_def gobreaker_Execute_def breaker_enter_def breaker_advance_def
  breaker_exit_def RetryableHTTPCall_def retry_loop.simps doPaymentRequest_def
  always_def calm_def quiet_def NewOrderService_def NewCircuitBreaker_def NewBulkhead_def
  DefaultRetryConfig_def NewIdempotencyStore_def zero_counts_def ReadyToTrip_def
  sem_grant_def sem_Release_def persistOrder_def IdempotencyStore_Get_def
  IdempotencyStore_Set_def seconds_rendering_def Let_def

text \<open>
  C1. The claim is that a 4xx status other than 429 is never retried: one HTTP call.
  In the composed stack \<open>doPaymentRequest\<close> returns a non-nil error for every status
  outside 2xx, and the success test of \<open>RetryableHTTPCall\<close> requires a nil error, so a
  400 is retried like a 500. With a downstream that answers 400 to every call and the
  default policy, \<open>CreateOrder\<close> makes three HTTP calls and reports exhaustion.
\<close>

theorem C1_status_400_is_retried:
  "fst (CreateOrder (always 400) calm [] (NewOrderService 0)) =
     Inl (PaymentFailed (RetryExhausted 3 (PaymentStatus 400 [])))
   \<and> http_calls (snd (CreateOrder (always 400) calm [] (NewOrderService 0))) = 3"
  by (simp add: run_defs)

text \<open>
  C5. When the attempts 0 to \<open>k\<close> have all failed in a way that calls for a retry, the
  backoffs before the \<open>k\<close>-th were slept through, and the context is cancelled during
  the backoff after attempt \<open>k\<close> (which is not the last attempt), then
  \<open>RetryableHTTPCall\<close> returns the cancellation error with no response, and the operation
  has been invoked \<open>k + 1\<close> times: no further attempt is made.
\<close>

theorem C5_cancelled_during_backoff:
  assumes "int k < MaxAttempts cfg - 1"
    and "\<forall>j\<le>k. \<not> succeeded (fst (fn (((snd \<circ> fn) ^^ j) w)))"
    and "\<forall>i<k. \<not> ctx_Done env (int i) (calculateBackoff cfg (int i) (rand_Float64 env (int i)))"
    and "ctx_Done env (int k) (calculateBackoff cfg (int k) (rand_Float64 env (int k)))"
  shows "RetryableHTTPCall env cfg (counted fn) (w, 0) =
           ((None, Some RetryCancelled), (((snd \<circ> fn) ^^ Suc k) w, Suc k))"
proof -
  have a: "\<forall>j\<le>k. \<not> succeeded (fst (counted fn (((snd \<circ> counted fn) ^^ j) (w, 0))))"
    using assms(2) by (simp add: counted_funpow counted_apply)
  have b: "\<forall>i. 0 \<le> i \<and> i < 0 + int k \<longrightarrow>
             \<not> ctx_Done env i (calculateBackoff cfg i (rand_Float64 env i))"
  proof (intro allI impI)
    fix i :: int assume i: "0 \<le> i \<and> i < 0 + int k"
    then have "nat i < k" by linarith
    then show "\<not> ctx_Done env i (calculateBackoff cfg i (rand_Float64 env i))"
      using assms(3) i by (metis int_nat_eq)
  qed
  have "retry_loop env cfg (counted fn) 0 (None, None) (w, 0) =
          ((None, Some RetryCancelled), ((snd \<circ> counted fn) ^^ Suc k) (w, 0))"
    by (rule retry_loop_cancel [OF a b]) (use assms(1,4) in simp_all)
  then show ?thesis
    by (simp add: RetryableHTTPCall_def counted_funpow del: funpow.simps)
qed

theorem C5_witness:
  "RetryableHTTPCall (quiet\<lparr>ctx_Done := (\<lambda>i d. i = 1)\<rparr>) DefaultRetryConfig
     (counted (\<lambda>n::nat. ((None, Some (PaymentRequestFailed ''refused'')), Suc n))) (0, 0) =
   ((None, Some RetryCancelled), (2, 2))"
  using C5_cancelled_during_backoff
    [of 1 DefaultRetryConfig "\<lambda>n::nat. ((None, Some (PaymentRequestFailed ''refused'')), Suc n)" 0
        "quiet\<lparr>ctx_Done := (\<lambda>i d. i = 1)\<rparr>"]
  by (simp add: DefaultRetryConfig_def quiet_def)

subsection \<open>Claims about the circuit breaker\<close>

text \<open>
  C4. A call made while the breaker is open and its cooldown has not elapsed returns the
  breaker-open error; the breaker and the state of the operation are left as they were, and
  the count of invocations of the operation does not move: the operation is not invoked.
\<close>

theorem C4_open_breaker_rejects_without_invoking:
  assumes "mode (cb c) = Open"
    and "now - opened_at (cb c) < open_cooldown (policy c)"
  shows "CircuitBreaker_Execute now now' (counted fn) (c, (w, n)) =
           (Some (CircuitBreakerOpen ErrOpenState), (c, (w, n)))"
  using assms
  by (simp add: CircuitBreaker_Execute_def gobreaker_Execute_def breaker_enter_def
      breaker_advance_def Let_def)

theorem C4_witness:
  "CircuitBreaker_Execute 200 300 (counted (\<lambda>w::unit. (None, w)))
     ((NewCircuitBreaker 0)\<lparr>cb := (cb (NewCircuitBreaker 0))\<lparr>mode := Open, opened_at := 100\<rparr>\<rparr>, ((), 0)) =
   (Some (CircuitBreakerOpen ErrOpenState),
    ((NewCircuitBreaker 0)\<lparr>cb := (cb (NewCircuitBreaker 0))\<lparr>mode := Open, opened_at := 100\<rparr>\<rparr>, ((), 0)))"
  using C4_open_breaker_rejects_without_invoking
    [of "(NewCircuitBreaker 0)\<lparr>cb := (cb (NewCircuitBreaker 0))\<lparr>mode := Open, opened_at := 100\<rparr>\<rparr>"
        200 300 "\<lambda>w::unit. (None, w)" "()" 0]
  by (simp add: NewCircuitBreaker_def)

subsection \<open>Claims about the idempotency store\<close>

lemma process_order_store:
  "idempotencyStore (snd (process_order p env key s)) =
     (if fst (callPaymentService p env s) = None \<and> persistOrder = None \<and> key \<noteq> []
      then IdempotencyStore_Set (idempotencyStore s) key
             \<lparr>OrderID = uuid_New env, Status = ''completed'', CreatedAt = now_stored env\<rparr>
      else idempotencyStore s)"
  using callPaymentService_frame [of p env s]
  by (cases "callPaymentService p env s")
     (auto simp: process_order_def persistOrder_def Let_def split: option.splits)

lemma process_order_result:
  "fst (process_order p env key s) =
     (case fst (callPaymentService p env s) of
        Some e \<Rightarrow> Inl (PaymentFailed e)
      | None \<Rightarrow>
          (case persistOrder of
             Some e \<Rightarrow> Inl (PersistFailed e)
           | None \<Rightarrow> Inr \<lparr>order_id = uuid_New env, status = ''completed'',
                          created_at = time_Format p (now_response env)\<rparr>))"
  by (cases "callPaymentService p env s")
     (auto simp: process_order_def persistOrder_def Let_def split: option.splits)

lemma CreateOrder_store:
  "idempotencyStore (snd (CreateOrder p env key s)) =
     (if key = [] then idempotencyStore s
      else if entries (idempotencyStore s) key \<noteq> None
      then snd (IdempotencyStore_Get (idempotencyStore s) key)
      else if fst (callPaymentService p env s) = None \<and> persistOrder = None
      then IdempotencyStore_Set (snd (IdempotencyStore_Get (idempotencyStore s) key)) key
             \<lparr>OrderID = uuid_New env, Status = ''completed'', CreatedAt = now_stored env\<rparr>
      else snd (IdempotencyStore_Get (idempotencyStore s) key))"
  by (auto simp: CreateOrder_def process_order_store callPaymentService_store_update
      IdempotencyStore_Get_def)

lemma CreateOrder_result:
  "fst (CreateOrder p env key s) =
     (case (if key = [] then None else entries (idempotencyStore s) key) of
        Some cached \<Rightarrow> Inr \<lparr>order_id = OrderID cached, status = Status cached,
                              created_at = time_Format p (CreatedAt cached)\<rparr>
      | None \<Rightarrow>
          (case fst (callPaymentService p env s) of
             Some e \<Rightarrow> Inl (PaymentFailed e)
           | None \<Rightarrow>
               (case persistOrder of
                  Some e \<Rightarrow> Inl (PersistFailed e)
                | None \<Rightarrow> Inr \<lparr>order_id = uuid_New env, status = ''completed'',
                               created_at = time_Format p (now_response env)\<rparr>)))"
  by (auto simp: CreateOrder_def process_order_result callPaymentService_store_update
      IdempotencyStore_Get_def split: option.splits)

text \<open>
  C8. A request with the empty idempotency key leaves the store as it was: its entries are
  unchanged, and no \<open>Get\<close> or \<open>Set\<close> is added to the record of accesses.
\<close>

theorem C8_empty_key_store_untouched:
  "idempotencyStore (snd (CreateOrder p env [] s)) = idempotencyStore s"
  by (simp add: CreateOrder_def process_order_store)

theorem C8_witness:
  "fst (CreateOrder (always 200) calm [] (NewOrderService 0)) =
     Inr \<lparr>order_id = ''id-1'', status = ''completed'', created_at = ''odd second''\<rparr>
   \<and> idempotencyStore (snd (CreateOrder (always 200) calm [] (NewOrderService 0))) =
       \<lparr>entries = Map.empty, accesses = []\<rparr>"
  using C8_empty_key_store_untouched [of "always 200" calm "NewOrderService 0"]
  by (simp add: run_defs)

text \<open>
  C10. \<open>CreateOrder\<close> writes to the store only after the payment call and the persist
  step have both succeeded. A run that returns an error leaves every entry of the store
  unchanged and makes no \<open>Set\<close>; a run that makes a \<open>Set\<close> is one in which the
  payment call and the persist step returned nil, and it returns the fresh response; and a
  run makes at most one \<open>Get\<close> followed by at most one \<open>Set\<close>, both on the supplied
  key.
\<close>

theorem C10_store_written_only_after_success:
  "(\<forall>e. fst (CreateOrder p env key s) = Inl e \<longrightarrow>
        entries (idempotencyStore (snd (CreateOrder p env key s))) = entries (idempotencyStore s)
        \<and> (accesses (idempotencyStore (snd (CreateOrder p env key s))) =
               accesses (idempotencyStore s)
           \<or> accesses (idempotencyStore (snd (CreateOrder p env key s))) =
               OpGet key # accesses (idempotencyStore s)))
   \<and> (accesses (idempotencyStore (snd (CreateOrder p env key s))) =
          OpSet key # OpGet key # accesses (idempotencyStore s) \<longrightarrow>
        fst (callPaymentService p env s) = None \<and> persistOrder = None
        \<and> fst (CreateOrder p env key s) =
            Inr \<lparr>order_id = uuid_New env, status = ''completed'',
                 created_at = time_Format p (now_response env)\<rparr>)
   \<and> (accesses (idempotencyStore (snd (CreateOrder p env key s))) = accesses (idempotencyStore s)
      \<or> accesses (idempotencyStore (snd (CreateOrder p env key s))) =
          OpGet key # accesses (idempotencyStore s)
      \<or> accesses (idempotencyStore (snd (CreateOrder p env key s))) =
          OpSet key # OpGet key # accesses (idempotencyStore s))"
  by (auto simp: CreateOrder_store CreateOrder_result IdempotencyStore_Get_def
      IdempotencyStore_Set_def persistOrder_def split: option.splits)

theorem C10_witness:
  "fst (CreateOrder (always 500) calm ''k-1'' (NewOrderService 0)) =
     Inl (PaymentFailed (RetryExhausted 3 (PaymentStatus 500 [])))
   \<and> entries (idempotencyStore (snd (CreateOrder (always 500) calm ''k-1'' (NewOrderService 0)))) =
       entries (idempotencyStore (NewOrderService 0))
   \<and> accesses (idempotencyStore (snd (CreateOrder (always 500) calm ''k-1'' (NewOrderService 0)))) =
       [OpGet ''k-1'']
   \<and> accesses (idempotencyStore (snd (CreateOrder (always 200) calm ''k-1'' (NewOrderService 0)))) =
       [OpSet ''k-1'', OpGet ''k-1'']
   \<and> fst (CreateOrder (always 200) calm ''k-1'' (NewOrderService 0)) =
       Inr \<lparr>order_id = ''id-1'', status = ''completed'', created_at = ''odd second''\<rparr>"
  using C10_store_written_only_after_success [of "always 500" calm "''k-1''" "NewOrderService 0"]
    C10_store_written_only_after_success [of "always 200" calm "''k-1''" "NewOrderService 0"]
  by (simp add: run_defs)

subsection \<open>Two successive requests with one key\<close>

lemma created_at_differs_across_a_second:
  "fst straddling_first = Inr \<lparr>order_id = ''id-1'', status = ''completed'', created_at = ''odd second''\<rparr>
   \<and> fst straddling_second = Inr \<lparr>order_id = ''id-1'', status = ''completed'', created_at = ''even second''\<rparr>
   \<and> http_calls (snd straddling_second) = 1"
  by (simp add: straddling_first_def straddling_second_def straddling_def run_defs)









subsection \<open>Claims about the backoff\<close>






subsection \<open>Claims about the bulkhead\<close>












lemma full_bulkhead_admits_no_one:
  "bulkhead_run [Call, Call, Grant 0, Grant 1] (bulkhead_init 1) = None"
  by (simp add: bulkhead_init_def NewBulkhead_def sem_grant_def sem_Release_def Let_def)

text \<open>
  One caller, run in isolation through the interleaved model, leaves the bulkhead as
  \<open>Bulkhead_Execute\<close> does.
\<close>

lemma single_caller_agrees:
  "map_option bh (bulkhead_run [Call, Grant 0, Exit 0 (Returned e), Release 0]
                    \<lparr>bh = b, callers = []\<rparr>) =
     (if sem_cur b + 1 \<le> Bulkhead_max b
      then Some (fst (snd (Bulkhead_Execute True (\<lambda>w. (e, w)) (b, ())))) else None)"
  by (simp add: Bulkhead_Execute_def sem_grant_def sem_Release_def Let_def)

end
